theory Spec2Isabelle
  imports Main "HOL-Library.Sublist" "HOL-Library.AList"
begin

section \<open>Buffers and hexadecimal text\<close>

text \<open>
  A Node \<open>Buffer\<close> is a list of bytes; Isabelle's \<open>char\<close> is a byte. A JavaScript
  string is represented by its UTF-8 bytes, so that the \<open>'utf8'\<close> conversions of
  \<open>cipher.update(key, 'utf8', 'hex')\<close> and \<open>decipher.update(encrypted, 'hex', 'utf8')\<close>
  are the identity on the representation (strings holding unpaired surrogates have no
  representation here).
\<close>

type_synonym buffer = "char list"

definition hex_digit :: "nat \<Rightarrow> char" where
  "hex_digit n = char_of (if n < 10 then 48 + n else 87 + n)"

text \<open>\<open>buf.toString('hex')\<close>: two lower-case digits per byte.\<close>

definition toString_hex :: "buffer \<Rightarrow> string" where
  "toString_hex b =
     concat (map (\<lambda>c. [hex_digit ((of_char c :: nat) div 16), hex_digit ((of_char c :: nat) mod 16)]) b)"

definition hex_value :: "char \<Rightarrow> nat option" where
  "hex_value c =
     (let n = (of_char c :: nat) in
      if 48 \<le> n \<and> n \<le> 57 then Some (n - 48)
      else if 97 \<le> n \<and> n \<le> 102 then Some (n - 87)
      else if 65 \<le> n \<and> n \<le> 70 then Some (n - 55)
      else None)"

text \<open>
  \<open>Buffer.from(s, 'hex')\<close>: pairs of digits are decoded from the left; decoding stops
  at the first pair that is not two hexadecimal digits, and an odd last character is
  dropped.
\<close>

fun Buffer_from_hex :: "string \<Rightarrow> buffer" where
  "Buffer_from_hex (a # b # rest) =
     (case hex_value a of
        None \<Rightarrow> []
      | Some h \<Rightarrow>
          (case hex_value b of
             None \<Rightarrow> []
           | Some l \<Rightarrow> char_of (16 * h + l) # Buffer_from_hex rest))"
| "Buffer_from_hex _ = []"

section \<open>The cryptographic primitives of Node's \<open>crypto\<close> module\<close>

text \<open>
  \<open>crypto.pbkdf2Sync\<close> and the \<open>aes-256-gcm\<close> cipher and decipher objects belong to
  Node, not to this repository; the functions below take them as a parameter.
  \<^item> \<open>pbkdf2Sync secret salt iterations keylen\<close> (the digest is always \<open>'sha256'\<close>);
  \<^item> \<open>cipher_update key iv plaintext\<close>: what \<open>cipher.update\<close> and \<open>cipher.final\<close>
    return together for a cipher made by \<open>createCipheriv('aes-256-gcm', key, iv)\<close>;
  \<^item> \<open>cipher_getAuthTag key iv plaintext\<close>: the tag of that cipher after \<open>final\<close>;
  \<^item> \<open>decipher_update key iv ciphertext\<close>: what \<open>decipher.update\<close> returns, before
    any verification;
  \<^item> \<open>decipher_final key iv tag ciphertext\<close>: whether \<open>createDecipheriv\<close>,
    \<open>setAuthTag\<close> and \<open>decipher.final\<close> all return; each of them throws otherwise
    (\<open>final\<close> when the tag does not verify), and \<open>final\<close> adds no plaintext in GCM.
\<close>

record crypto =
  pbkdf2Sync :: "string \<Rightarrow> buffer \<Rightarrow> nat \<Rightarrow> nat \<Rightarrow> buffer"
  cipher_update :: "buffer \<Rightarrow> buffer \<Rightarrow> buffer \<Rightarrow> buffer"
  cipher_getAuthTag :: "buffer \<Rightarrow> buffer \<Rightarrow> buffer \<Rightarrow> buffer"
  decipher_update :: "buffer \<Rightarrow> buffer \<Rightarrow> buffer \<Rightarrow> buffer"
  decipher_final :: "buffer \<Rightarrow> buffer \<Rightarrow> buffer \<Rightarrow> buffer \<Rightarrow> bool"

text \<open>
  The contract of an authenticated cipher that the round trip relies on, for the
  inputs that occur: a key that \<open>pbkdf2Sync\<close> derived with 100000 iterations and 32
  bytes, and an iv of 16 bytes. What the cipher produced, the decipher with the same
  key and iv accepts and turns back into the plaintext.
\<close>

definition aead_correct :: "crypto \<Rightarrow> bool" where
  "aead_correct c \<longleftrightarrow>
     (\<forall>secret salt_bytes i p. length i = 16 \<longrightarrow>
        (let k = pbkdf2Sync c secret salt_bytes 100000 32
         in decipher_final c k i (cipher_getAuthTag c k i p) (cipher_update c k i p)
            \<and> decipher_update c k i (cipher_update c k i p) = p))"


section \<open>The Envelope Cipher (src/utils/encryption.ts)\<close>

text \<open>
  \<open>encryptKey\<close> returns the JSON text of the object \<open>{encrypted, salt, iv, authTag}\<close>
  of four hexadecimal strings, and \<open>decryptKey\<close> is given a text to parse. A text is
  represented by what \<open>JSON.parse\<close> makes of it: a \<open>SyntaxError\<close>, \<open>null\<close>, or a value
  with its four properties of these names. A property is a string, or \<open>None\<close> when it
  is missing or holds \<open>null\<close>, a boolean or a number (a JSON number, string, boolean
  or array as the whole text has none of the four properties). Properties that hold an
  array or an object are not represented.
\<close>

record envelope =
  encrypted :: "string option"
  salt :: "string option"
  iv :: "string option"
  authTag :: "string option"

datatype json_text = Not_JSON | JSON_null | JSON_object envelope

text \<open>
  \<open>decryptKey\<close> has no \<open>catch\<close>: every throw inside it (the \<open>SyntaxError\<close> of
  \<open>JSON.parse\<close>, a \<open>TypeError\<close>, the error of the decipher) leaves it as an exception.
\<close>

datatype decrypt_error = Thrown

text \<open>
  \<open>encryptKey\<close>. The two \<open>crypto.randomBytes\<close> draws (16 bytes of iv, 32 bytes of
  salt) are arguments. \<open>envelope_object\<close> is the object handed to \<open>JSON.stringify\<close>.
\<close>

definition envelope_object :: "crypto \<Rightarrow> buffer \<Rightarrow> buffer \<Rightarrow> string \<Rightarrow> string \<Rightarrow> envelope" where
  "envelope_object c iv_bytes salt_bytes key secret =
     (let derivedKey = pbkdf2Sync c secret salt_bytes 100000 32
      in \<lparr> encrypted = Some (toString_hex (cipher_update c derivedKey iv_bytes key)),
           salt = Some (toString_hex salt_bytes),
           iv = Some (toString_hex iv_bytes),
           authTag = Some (toString_hex (cipher_getAuthTag c derivedKey iv_bytes key)) \<rparr>)"

definition encryptKey :: "crypto \<Rightarrow> buffer \<Rightarrow> buffer \<Rightarrow> string \<Rightarrow> string \<Rightarrow> json_text" where
  "encryptKey c iv_bytes salt_bytes key secret =
     JSON_object (envelope_object c iv_bytes salt_bytes key secret)"

text \<open>
  The input of \<open>decipher.update(encrypted, 'hex', 'utf8')\<close>: a string of odd length is
  refused with a \<open>TypeError\<close>; otherwise it is decoded as \<open>Buffer.from\<close> decodes.
\<close>

definition update_hex_input :: "string \<Rightarrow> buffer option" where
  "update_hex_input s = (if odd (length s) then None else Some (Buffer_from_hex s))"

text \<open>
  \<open>decryptKey\<close>. Destructuring \<open>null\<close> throws; \<open>Buffer.from\<close> and \<open>decipher.update\<close>
  throw on a value that is not a string. \<open>decipher.update\<close> has already produced
  \<open>decrypted\<close> when \<open>decipher.final\<close> runs; a throw there leaves the function by the
  exception, and \<open>decrypted\<close> is never returned.
\<close>

definition decryptKey :: "crypto \<Rightarrow> json_text \<Rightarrow> string \<Rightarrow> decrypt_error + string" where
  "decryptKey c encryptedData secret =
     (case encryptedData of
        Not_JSON \<Rightarrow> Inl Thrown
      | JSON_null \<Rightarrow> Inl Thrown
      | JSON_object e \<Rightarrow>
          (case salt e of
             None \<Rightarrow> Inl Thrown
           | Some salt_hex \<Rightarrow>
          (case iv e of
             None \<Rightarrow> Inl Thrown
           | Some iv_hex \<Rightarrow>
          (case authTag e of
             None \<Rightarrow> Inl Thrown
           | Some tag_hex \<Rightarrow>
          (case encrypted e of
             None \<Rightarrow> Inl Thrown
           | Some encrypted_hex \<Rightarrow>
          (case update_hex_input encrypted_hex of
             None \<Rightarrow> Inl Thrown
           | Some ciphertext \<Rightarrow>
               (let derivedKey = pbkdf2Sync c secret (Buffer_from_hex salt_hex) 100000 32;
                    iv_bytes = Buffer_from_hex iv_hex;
                    tag = Buffer_from_hex tag_hex;
                    decrypted = decipher_update c derivedKey iv_bytes ciphertext
                in if decipher_final c derivedKey iv_bytes tag ciphertext
                   then Inr decrypted
                   else Inl Thrown)))))))"



subsection \<open>A small instance of the primitives, for running the definitions\<close>

text \<open>
  Not a secure cipher: the key is cut from secret and salt, the ciphertext is the
  reversed plaintext, and the tag is key, iv and ciphertext in a row. It satisfies
  \<open>aead_correct\<close> and \<open>tag_recomputed\<close>, which is all the concrete evaluations below
  need.
\<close>

definition demo_crypto :: crypto where
  "demo_crypto =
     \<lparr> pbkdf2Sync = (\<lambda>secret salt_bytes iterations keylen. take keylen (secret @ salt_bytes)),
       cipher_update = (\<lambda>k i p. rev p),
       cipher_getAuthTag = (\<lambda>k i p. k @ i @ rev p),
       decipher_update = (\<lambda>k i ct. rev ct),
       decipher_final = (\<lambda>k i tag ct. tag = k @ i @ ct) \<rparr>"

section \<open>JavaScript values and property lookup\<close>

text \<open>
  \<open>obj[key]\<close> on an object made by \<open>JSON.parse\<close> finds the object's own property
  first and then looks in \<open>Object.prototype\<close>, whose properties are functions (and, for
  \<open>__proto__\<close>, the prototype object itself): all of them truthy. The result is the own
  value, or the inherited built-in (kept by name), or \<open>undefined\<close>. The last two
  values are met in the App registry only: a \<open>Date\<close> object, and the ISO text that
  \<open>JSON.stringify\<close> writes for one (both kept by their time).
\<close>

datatype 'a jsval = Undefined | Own 'a | Inherited string | Date_object int | Date_text int

definition Object_prototype_names :: "string list" where
  "Object_prototype_names =
     [''constructor'', ''__defineGetter__'', ''__defineSetter__'', ''hasOwnProperty'',
      ''__lookupGetter__'', ''__lookupSetter__'', ''isPrototypeOf'', ''propertyIsEnumerable'',
      ''toString'', ''valueOf'', ''__proto__'', ''toLocaleString'']"

definition js_get :: "(string \<rightharpoonup> 'a) \<Rightarrow> string \<Rightarrow> 'a jsval" where
  "js_get obj k =
     (case obj k of
        Some v \<Rightarrow> Own v
      | None \<Rightarrow> if k \<in> set Object_prototype_names then Inherited k else Undefined)"

text \<open>Truthiness of a looked-up string: \<open>undefined\<close> and \<open>''\<close> are falsy.\<close>

fun truthy_string :: "string jsval \<Rightarrow> bool" where
  "truthy_string Undefined = False"
| "truthy_string (Own v) = (v \<noteq> [])"
| "truthy_string (Inherited b) = True"
| "truthy_string (Date_object t) = True"
| "truthy_string (Date_text t) = True"

text \<open>
  A header, body field or environment variable is absent (\<open>None\<close>) or a string.
  \<open>a || b\<close> on two of them; the result is \<open>None\<close> when it is falsy.
\<close>

definition js_or :: "string option \<Rightarrow> string option \<Rightarrow> string option" where
  "js_or a b =
     (case a of
        Some x \<Rightarrow> if x \<noteq> [] then Some x else (case b of Some y \<Rightarrow> if y \<noteq> [] then Some y else None | None \<Rightarrow> None)
      | None \<Rightarrow> (case b of Some y \<Rightarrow> if y \<noteq> [] then Some y else None | None \<Rightarrow> None))"

section \<open>Process environment, requests and responses\<close>

text \<open>
  \<open>process.env\<close>. \<open>VALID_API_KEYS\<close> holds the JSON text of an object from API key to
  user id; the text is represented by the own properties of the object it denotes, and
  \<open>None\<close> is the unset (or empty) variable.
\<close>

record env =
  OPENAI_API_KEY :: "string option"
  ANTHROPIC_API_KEY :: "string option"
  ENCRYPTION_SECRET :: "string option"
  VALID_API_KEYS :: "(string \<rightharpoonup> string) option"
  NODE_ENV :: "string option"
  MASTER_KEY :: "string option"

record request =
  x_api_key :: "string option"
  x_app_key :: "string option"
  origin :: "string option"
  referer :: "string option"
  ip :: "string option"
  remoteAddress :: "string option"

datatype service = Openai | Anthropic

fun service_name :: "service \<Rightarrow> string" where
  "service_name Openai = ''openai''"
| "service_name Anthropic = ''anthropic''"

fun service_title :: "service \<Rightarrow> string" where
  "service_title Openai = ''OpenAI''"
| "service_title Anthropic = ''Anthropic''"

fun service_key :: "env \<Rightarrow> service \<Rightarrow> string option" where
  "service_key e Openai = OPENAI_API_KEY e"
| "service_key e Anthropic = ANTHROPIC_API_KEY e"

datatype environment = development | staging | production

text \<open>
  Response bodies: \<open>{error}\<close>; the user route's \<open>{service, encryptedKey, hint,
  timestamp}\<close> (the hint is a constant); the app route's \<open>{service, encryptedKey, app,
  environment, timestamp}\<close>; \<open>{userId, username, apiKey, message}\<close> of registration;
  \<open>{apiKey, message}\<close> of rotation; the plain message of a rate limiter.
\<close>

datatype body =
    Error_body string
  | User_key_body string json_text int
  | App_key_body string json_text string environment int
  | Registered_body string string string
  | Rotated_body string
  | Limiter_body string

datatype response = Response nat body

fun status :: "response \<Rightarrow> nat" where
  "status (Response code b) = code"

text \<open>A middleware answers the request itself or calls \<open>next()\<close> with what it attached.\<close>

datatype 'a middleware = Responded response | Next 'a

section \<open>The User API-key gate (src/middleware/auth.ts)\<close>

text \<open>
  \<open>src/index.ts\<close> mounts the auth routes and the key routes only: no App request runs
  in the process of this gate, and \<open>Object.prototype\<close> is as the runtime made it.
\<close>

record apiKeyPayload =
  payload_apiKey :: string
  payload_userId :: "string jsval"

definition generateApiKey :: "buffer \<Rightarrow> string" where
  "generateApiKey random_bytes = ''ks_'' @ toString_hex random_bytes"

definition validateApiKey :: "env \<Rightarrow> request \<Rightarrow> apiKeyPayload middleware" where
  "validateApiKey e req =
     (case js_or (x_api_key req) None of
        None \<Rightarrow> Responded (Response 401 (Error_body ''API key required''))
      | Some apiKey \<Rightarrow>
          (let validApiKeys = (case VALID_API_KEYS e of None \<Rightarrow> Map.empty | Some obj \<Rightarrow> obj)
           in if \<not> truthy_string (js_get validApiKeys apiKey)
              then Responded (Response 401 (Error_body ''Invalid API key''))
              else Next \<lparr> payload_apiKey = apiKey,
                          payload_userId = js_get validApiKeys apiKey \<rparr>))"

section \<open>The User key routes (routes/keys.ts)\<close>

text \<open>\<open>process.env.ENCRYPTION_SECRET || apiKeyData.apiKey\<close>.\<close>

definition encryptionSecret :: "env \<Rightarrow> apiKeyPayload \<Rightarrow> string" where
  "encryptionSecret e apiKeyData =
     (case js_or (ENCRYPTION_SECRET e) None of
        Some s \<Rightarrow> s
      | None \<Rightarrow> payload_apiKey apiKeyData)"

text \<open>
  \<open>GET /openai\<close> and \<open>GET /anthropic\<close>: the two handlers differ in the service only.
  \<open>now\<close> is the clock at the response.
\<close>

definition keysRouter_get ::
  "crypto \<Rightarrow> env \<Rightarrow> service \<Rightarrow> buffer \<Rightarrow> buffer \<Rightarrow> int \<Rightarrow> apiKeyPayload option \<Rightarrow> response" where
  "keysRouter_get c e svc iv_bytes salt_bytes now apiKeyData =
     (case apiKeyData of
        None \<Rightarrow> Response 401 (Error_body ''Unauthorized'')
      | Some d \<Rightarrow>
          (case js_or (service_key e svc) None of
             None \<Rightarrow> Response 404 (Error_body (service_title svc @ '' API key not configured''))
           | Some k \<Rightarrow>
               Response 200
                 (User_key_body (service_name svc)
                    (encryptKey c iv_bytes salt_bytes k (encryptionSecret e d)) now)))"

text \<open>
  \<open>app.use('/api/keys', validateApiKey, keyRetrievalLimiter, keysRouter)\<close>. The limiter
  is the library's; \<open>admitted\<close> says whether it lets this request through.
\<close>

definition api_keys ::
  "crypto \<Rightarrow> env \<Rightarrow> bool \<Rightarrow> service \<Rightarrow> buffer \<Rightarrow> buffer \<Rightarrow> int \<Rightarrow> request \<Rightarrow> response" where
  "api_keys c e admitted svc iv_bytes salt_bytes now req =
     (case validateApiKey e req of
        Responded r \<Rightarrow> r
      | Next d \<Rightarrow>
          if \<not> admitted
          then Response 429 (Limiter_body ''Too many key retrieval requests, please try again later.'')
          else keysRouter_get c e svc iv_bytes salt_bytes now (Some d))"

section \<open>The User registry and key rotation (routes/auth.ts)\<close>

record user =
  user_id :: string
  username :: string
  passwordHash :: string
  user_apiKey :: string
  user_createdAt :: int
  user_lastAccess :: int

text \<open>The \<open>users\<close> map of the module and \<open>process.env\<close>.\<close>

record auth_state =
  users :: "string \<rightharpoonup> user"
  process_env :: env

record auth_body =
  body_username :: "string option"
  body_password :: "string option"
  body_masterKey :: "string option"

text \<open>
  \<open>POST /register\<close>. \<open>hashPassword\<close> (bcrypt), \<open>crypto.randomUUID()\<close> and the random
  bytes of \<open>generateApiKey\<close> are arguments.
\<close>

definition register_user ::
  "(string \<Rightarrow> string) \<Rightarrow> string \<Rightarrow> buffer \<Rightarrow> int \<Rightarrow> auth_body \<Rightarrow> auth_state \<Rightarrow> response \<times> auth_state" where
  "register_user hashPassword uuid random_bytes now b s =
     (case (js_or (body_username b) None, js_or (body_password b) None, js_or (body_masterKey b) None) of
        (Some uname, Some password, Some masterKey) \<Rightarrow>
          if Some masterKey \<noteq> MASTER_KEY (process_env s)
          then (Response 403 (Error_body ''Invalid master key''), s)
          else if users s uname \<noteq> None
          then (Response 409 (Error_body ''Username already exists''), s)
          else
            (let apiKey = generateApiKey random_bytes;
                 u = \<lparr> user_id = uuid, username = uname, passwordHash = hashPassword password,
                       user_apiKey = apiKey, user_createdAt = now, user_lastAccess = now \<rparr>;
                 currentApiKeys =
                   (case VALID_API_KEYS (process_env s) of None \<Rightarrow> Map.empty | Some obj \<Rightarrow> obj)
             in (Response 201 (Registered_body uuid uname apiKey),
                 s\<lparr> users := (users s)(uname \<mapsto> u),
                    process_env := (process_env s)\<lparr> VALID_API_KEYS := Some (currentApiKeys(apiKey \<mapsto> uuid)) \<rparr> \<rparr>))
      | _ \<Rightarrow> (Response 400 (Error_body ''Username, password, and master key are required''), s))"


section \<open>The App registry (src/middleware/appAuth.ts)\<close>

record permissions =
  openai :: bool
  anthropic :: bool

fun permission_of :: "permissions \<Rightarrow> service \<Rightarrow> bool" where
  "permission_of p Openai = openai p"
| "permission_of p Anthropic = anthropic p"

record rate_limit =
  windowMs :: nat
  maxRequests :: nat

text \<open>Dates are milliseconds since the epoch.\<close>

record app =
  app_id :: string
  name :: string
  apiKey :: string
  permissions :: permissions
  allowedIPs :: "string list option"
  allowedDomains :: "string list option"
  rateLimit :: "rate_limit option"
  createdAt :: int
  lastAccess :: "int option"
  accessCount :: int
  environment :: environment
  expiresAt :: "int option"

text \<open>
  \<open>AppConfig\<close>: the own properties of \<open>config.apps\<close> in the order in which
  \<open>Object.entries\<close> enumerates them, which for keys that are not array indices (those
  of \<open>generateAppApiKey\<close> start with \<open>app_\<close>) is the order of insertion. An assignment
  keeps the place of an existing key and appends a new one.

  The one own property of \<open>config.apps\<close> that the code can create and that is not an
  App record is \<open>lastAccess\<close>, holding a \<open>Date\<close> (see \<open>validateAppKey\<close>);
  \<open>lastAccess_entry\<close> is its time. In the file it is the ISO text of the date; whether
  the cache holds the object or the text is part of the server state. An App record
  under the same key comes first in every lookup.
\<close>

record appConfig =
  apps :: "(string \<times> app) list"
  lastAccess_entry :: "int option"

text \<open>
  The file at \<open>APPS_CONFIG_PATH\<close>: the config whose JSON text it holds (\<open>None\<close> when
  \<open>readFileSync\<close> or \<open>JSON.parse\<close> throws), and whether \<open>writeFileSync\<close> succeeds on it.
\<close>

record config_file =
  content :: "appConfig option"
  writable :: bool

text \<open>
  The process that serves the App routes: the file, the module variables \<open>appsCache\<close>
  and \<open>cacheTimestamp\<close>, and what requests have written outside the registry:
  \<open>prototype_lastAccess\<close> is the time of the \<open>Date\<close> in \<open>Object.prototype.lastAccess\<close>
  once a request has written it there, and \<open>cache_entry_object\<close> says that the
  \<open>lastAccess\<close> property of the cached \<open>config.apps\<close>, when there is one, is the
  \<open>Date\<close> object that a request stored and not the text read from the file.
\<close>

record server =
  disk :: config_file
  appsCache :: "appConfig option"
  cacheTimestamp :: int
  prototype_lastAccess :: "int option"
  cache_entry_object :: bool

definition CACHE_TTL :: int where
  "CACHE_TTL = 60000"

text \<open>
  \<open>loadApps\<close> returns the config, whether the returned object is the one that
  \<open>appsCache\<close> holds (it is, except for the fresh \<open>{ apps: {} }\<close> of the catch branch),
  and the state. Callers change the returned object in place, which changes the cache
  when the two are one object.
\<close>

definition read_config :: "int \<Rightarrow> server \<Rightarrow> appConfig \<times> bool \<times> server" where
  "read_config now s =
     (case content (disk s) of
        Some parsed \<Rightarrow>
          (parsed, True,
           s\<lparr> appsCache := Some parsed, cacheTimestamp := now, cache_entry_object := False \<rparr>)
      | None \<Rightarrow> (\<lparr> apps = [], lastAccess_entry = None \<rparr>, False, s))"

definition loadApps :: "int \<Rightarrow> server \<Rightarrow> appConfig \<times> bool \<times> server" where
  "loadApps now s =
     (case appsCache s of
        Some cached \<Rightarrow>
          if now - cacheTimestamp s < CACHE_TTL then (cached, True, s) else read_config now s
      | None \<Rightarrow> read_config now s)"

text \<open>\<open>saveApps\<close>: a throw of \<open>writeFileSync\<close> is caught and logged, nothing else.\<close>

definition saveApps :: "int \<Rightarrow> appConfig \<Rightarrow> server \<Rightarrow> server" where
  "saveApps now config s =
     (if writable (disk s)
      then s\<lparr> disk := (disk s)\<lparr> content := Some config \<rparr>,
              appsCache := Some config, cacheTimestamp := now \<rparr>
      else s)"


text \<open>The in-place change of the object that \<open>loadApps\<close> returned.\<close>

definition assign_in_place :: "bool \<Rightarrow> appConfig \<Rightarrow> server \<Rightarrow> server" where
  "assign_in_place is_cache config s = (if is_cache then s\<lparr> appsCache := Some config \<rparr> else s)"



text \<open>
  The three tests of \<open>validateAppKey\<close>, named after the comments that head them in
  the source: ``Check if expired'', ``IP whitelist check'', ``Domain check for browser
  apps''. Each says when the request is answered with the error.
\<close>

definition is_expired :: "int \<Rightarrow> app \<Rightarrow> bool" where
  "is_expired now a = (case expiresAt a of Some t \<Rightarrow> t < now | None \<Rightarrow> False)"

definition ip_denied :: "request \<Rightarrow> app \<Rightarrow> bool" where
  "ip_denied req a =
     (case allowedIPs a of
        Some ips \<Rightarrow>
          ips \<noteq> [] \<and>
          (case js_or (ip req) (remoteAddress req) of
             None \<Rightarrow> True
           | Some clientIP \<Rightarrow> clientIP \<notin> set ips)
      | None \<Rightarrow> False)"

definition domain_denied :: "request \<Rightarrow> app \<Rightarrow> bool" where
  "domain_denied req a =
     (case allowedDomains a of
        Some domains \<Rightarrow>
          domains \<noteq> [] \<and>
          (case js_or (origin req) (referer req) of
             None \<Rightarrow> False
           | Some orig \<Rightarrow> \<not> list_ex (\<lambda>domain. sublist domain orig) domains)
      | None \<Rightarrow> False)"

text \<open>
  \<open>config.apps[key]\<close> in the serving process: an App record; else, for the key
  \<open>lastAccess\<close>, the own property of that name (the \<open>Date\<close> object, or the text when
  the config was read from the file), else the \<open>Date\<close> inherited from
  \<open>Object.prototype\<close> once it is there; else a built-in of \<open>Object.prototype\<close>.
  (\<open>Object.prototype.accessCount\<close>, written together with \<open>lastAccess\<close>, is \<open>NaN\<close>, which
  is falsy as \<open>undefined\<close> is.)
\<close>

definition apps_get :: "appConfig \<Rightarrow> bool \<Rightarrow> int option \<Rightarrow> string \<Rightarrow> app jsval" where
  "apps_get config entry_is_object inherited_lastAccess key =
     (case map_of (apps config) key of
        Some a \<Rightarrow> Own a
      | None \<Rightarrow>
          if key = ''lastAccess''
          then (case lastAccess_entry config of
                  Some t \<Rightarrow> if entry_is_object then Date_object t else Date_text t
                | None \<Rightarrow>
                    (case inherited_lastAccess of
                       Some t \<Rightarrow> Date_object t
                     | None \<Rightarrow> Undefined))
          else if key \<in> set Object_prototype_names then Inherited key
          else Undefined)"

text \<open>
  \<open>validateAppKey\<close>. The order is the source's: key lookup, expiry, IP allow-list,
  domain allow-list, and only then the access statistics and \<open>saveApps\<close>.

  A key that finds a built-in or a \<open>Date\<close> object finds an object with none of the
  fields tested, so the request reaches the statistics, which are written onto that
  object: for the key \<open>__proto__\<close> the object is \<open>Object.prototype\<close>, and from then on
  every object inherits \<open>lastAccess\<close>. The assignment \<open>config.apps[key] = app\<close> then
  makes the object an own property of \<open>config.apps\<close> (for \<open>__proto__\<close> it does
  nothing); \<open>JSON.stringify\<close> leaves a function out of the file and writes a \<open>Date\<close>
  as its ISO text. A key that finds that text finds a string, and the assignment
  \<open>app.lastAccess = new Date()\<close> to a string throws in a module, which is strict code;
  the error handler answers 500.
\<close>

definition validateAppKey :: "int \<Rightarrow> request \<Rightarrow> server \<Rightarrow> app jsval middleware \<times> server" where
  "validateAppKey now req s =
     (case js_or (x_app_key req) (x_api_key req) of
        None \<Rightarrow> (Responded (Response 401 (Error_body ''App API key required'')), s)
      | Some key \<Rightarrow>
          (case loadApps now s of
             (config, is_cache, s1) \<Rightarrow>
               (case apps_get config (is_cache \<and> cache_entry_object s1) (prototype_lastAccess s1) key of
                  Undefined \<Rightarrow> (Responded (Response 401 (Error_body ''Invalid app API key'')), s1)
                | Inherited b \<Rightarrow>
                    (Next (Inherited b),
                     saveApps now config
                       (if b = ''__proto__'' then s1\<lparr> prototype_lastAccess := Some now \<rparr> else s1))
                | Date_object t \<Rightarrow>
                    (let config' = config\<lparr> lastAccess_entry := Some t \<rparr>;
                         s2 = saveApps now config' (assign_in_place is_cache config' s1)
                     in (Next (Date_object t),
                         if is_cache \<or> writable (disk s1)
                         then s2\<lparr> cache_entry_object := True \<rparr> else s2))
                | Date_text t \<Rightarrow>
                    (Responded (Response 500 (Error_body ''Internal server error'')), s1)
                | Own a \<Rightarrow>
                    if is_expired now a
                    then (Responded (Response 401 (Error_body ''App API key expired'')), s1)
                    else if ip_denied req a
                    then (Responded (Response 403 (Error_body ''Access denied from this IP'')), s1)
                    else if domain_denied req a
                    then (Responded (Response 403 (Error_body ''Access denied from this domain'')), s1)
                    else
                      (let a' = a\<lparr> lastAccess := Some now, accessCount := accessCount a + 1 \<rparr>;
                           config' = config\<lparr> apps := AList.update key a' (apps config) \<rparr>
                       in (Next (Own a'), saveApps now config' (assign_in_place is_cache config' s1))))))"

text \<open>
  \<open>checkAppPermission(service)\<close> on \<open>req.appData\<close>. For a built-in or a date,
  \<open>app.permissions\<close> is \<open>undefined\<close> and indexing it throws; the error handler
  answers 500.
\<close>

definition checkAppPermission :: "service \<Rightarrow> app jsval \<Rightarrow> app middleware" where
  "checkAppPermission svc appData =
     (case appData of
        Undefined \<Rightarrow> Responded (Response 401 (Error_body ''App authentication required''))
      | Inherited b \<Rightarrow> Responded (Response 500 (Error_body ''Internal server error''))
      | Date_object t \<Rightarrow> Responded (Response 500 (Error_body ''Internal server error''))
      | Date_text t \<Rightarrow> Responded (Response 500 (Error_body ''Internal server error''))
      | Own a \<Rightarrow>
          if \<not> permission_of (permissions a) svc
          then Responded (Response 403
                 (Error_body (''App does not have permission to access '' @ service_name svc @ '' keys'')))
          else Next a)"

section \<open>The App key routes (src/routes/apps.ts)\<close>

text \<open>The handler of \<open>GET /keys/openai\<close> and \<open>GET /keys/anthropic\<close>.\<close>

definition appsRouter_get ::
  "crypto \<Rightarrow> env \<Rightarrow> service \<Rightarrow> buffer \<Rightarrow> buffer \<Rightarrow> int \<Rightarrow> app \<Rightarrow> response" where
  "appsRouter_get c e svc iv_bytes salt_bytes now a =
     (case js_or (service_key e svc) None of
        None \<Rightarrow> Response 404 (Error_body (service_title svc @ '' API key not configured''))
      | Some k \<Rightarrow>
          Response 200
            (App_key_body (service_name svc) (encryptKey c iv_bytes salt_bytes k (apiKey a))
               (name a) (environment a) now))"

text \<open>
  \<open>appsRouter.use(validateAppKey)\<close>, then \<open>checkAppPermission(service)\<close>, then the
  handler.
\<close>

definition app_keys ::
  "crypto \<Rightarrow> env \<Rightarrow> service \<Rightarrow> buffer \<Rightarrow> buffer \<Rightarrow> int \<Rightarrow> request \<Rightarrow> server \<Rightarrow> response \<times> server" where
  "app_keys c e svc iv_bytes salt_bytes now req s =
     (case validateAppKey now req s of
        (Responded r, s') \<Rightarrow> (r, s')
      | (Next appData, s') \<Rightarrow>
          (case checkAppPermission svc appData of
             Responded r \<Rightarrow> (r, s')
           | Next a \<Rightarrow> (appsRouter_get c e svc iv_bytes salt_bytes now a, s')))"

section \<open>Origin validation (src/middleware/security.ts)\<close>

definition validateRequestOrigin :: "string list \<Rightarrow> env \<Rightarrow> request \<Rightarrow> unit middleware" where
  "validateRequestOrigin allowedOrigins e req =
     (case js_or (origin req) (referer req) of
        None \<Rightarrow>
          if NODE_ENV e = Some ''production''
          then Responded (Response 403 (Error_body ''Origin validation failed''))
          else Next ()
      | Some orig \<Rightarrow>
          if allowedOrigins \<noteq> [] \<and> ''*'' \<notin> set allowedOrigins
             \<and> \<not> list_ex (\<lambda>allowed. prefix allowed orig) allowedOrigins
          then Responded (Response 403 (Error_body ''Origin not allowed''))
          else Next ())"

section \<open>Revoking an app (scripts/manage-apps.ts)\<close>

datatype revoke_result = Revoked | Not_found_exit | Error_logged

text \<open>\<open>delete config.apps[key]\<close>: the own property of that name is removed.\<close>

definition delete_property :: "string \<Rightarrow> appConfig \<Rightarrow> appConfig" where
  "delete_property key config =
     config\<lparr> apps := AList.delete key (apps config),
             lastAccess_entry := (if key = ''lastAccess'' then None else lastAccess_entry config) \<rparr>"

text \<open>
  The loop over \<open>Object.entries(config.apps)\<close>: at the first entry whose name matches,
  the key is deleted from the config and the loop is left by \<open>break\<close>. (An entry that
  is a text has no \<open>name\<close> and never matches.)
\<close>

fun revoke_loop :: "(string \<times> app) list \<Rightarrow> string \<Rightarrow> appConfig \<Rightarrow> appConfig \<times> bool" where
  "revoke_loop [] nm config = (config, False)"
| "revoke_loop ((key, a) # entries) nm config =
     (if name a = nm
      then (delete_property key config, True)
      else revoke_loop entries nm config)"

text \<open>
  \<open>revokeApp\<close> reads and writes the file itself, in the script's process. A throw of
  the read or of the write is caught and logged; a name that is not found ends the
  process with status 1 before any write.
\<close>

definition revokeApp :: "string \<Rightarrow> config_file \<Rightarrow> revoke_result \<times> config_file" where
  "revokeApp nm f =
     (case content f of
        None \<Rightarrow> (Error_logged, f)
      | Some config \<Rightarrow>
          (case revoke_loop (apps config) nm config of
             (config', found) \<Rightarrow>
               if \<not> found then (Not_found_exit, f)
               else if writable f then (Revoked, f\<lparr> content := Some config' \<rparr>)
               else (Error_logged, f)))"

text \<open>
  \<open>Lookup\<close> of a key against the stored registry, as a newly started server does it:
  \<open>loadApps\<close>, then \<open>config.apps[key]\<close>.
\<close>

definition lookup_stored :: "int \<Rightarrow> config_file \<Rightarrow> string \<Rightarrow> app jsval" where
  "lookup_stored now f key =
     (case loadApps now \<lparr> disk = f, appsCache = None, cacheTimestamp = 0,
                           prototype_lastAccess = None, cache_entry_object = False \<rparr> of
        (config, is_cache, s) \<Rightarrow>
          apps_get config (is_cache \<and> cache_entry_object s) (prototype_lastAccess s) key)"

section \<open>Concrete inputs\<close>

text \<open>
  A deployment with both service keys configured and one registered user, without and
  with the shared \<open>ENCRYPTION_SECRET\<close>; an App \<open>Bot\<close> allowed OpenAI only.
\<close>

definition demo_env :: env where
  "demo_env =
     \<lparr> OPENAI_API_KEY = Some ''sk-live'', ANTHROPIC_API_KEY = Some ''sk-ant'',
       ENCRYPTION_SECRET = None, VALID_API_KEYS = Some [''ks_ab'' \<mapsto> ''u1''],
       NODE_ENV = Some ''production'', MASTER_KEY = Some ''master'' \<rparr>"

definition demo_env_shared :: env where
  "demo_env_shared = demo_env\<lparr> ENCRYPTION_SECRET := Some ''shared'' \<rparr>"

definition user_request :: "string \<Rightarrow> request" where
  "user_request key =
     \<lparr> x_api_key = Some key, x_app_key = None, origin = None, referer = None,
       ip = None, remoteAddress = None \<rparr>"

definition app_request :: "string \<Rightarrow> string option \<Rightarrow> string option \<Rightarrow> request" where
  "app_request key client_ip orig =
     \<lparr> x_api_key = None, x_app_key = Some key, origin = orig, referer = None,
       ip = client_ip, remoteAddress = None \<rparr>"

definition demo_app :: "string \<Rightarrow> app" where
  "demo_app key =
     \<lparr> app_id = ''id-'' @ key, name = ''Bot'', apiKey = key,
       permissions = \<lparr> openai = True, anthropic = False \<rparr>,
       allowedIPs = None, allowedDomains = None,
       rateLimit = Some \<lparr> windowMs = 60000, maxRequests = 30 \<rparr>,
       createdAt = 0, lastAccess = None, accessCount = 0,
       environment = production, expiresAt = None \<rparr>"

definition stored :: "(string \<times> app) list \<Rightarrow> bool \<Rightarrow> config_file" where
  "stored entries w =
     \<lparr> content = Some \<lparr> apps = entries, lastAccess_entry = None \<rparr>, writable = w \<rparr>"

definition fresh_server :: "config_file \<Rightarrow> server" where
  "fresh_server f =
     \<lparr> disk = f, appsCache = None, cacheTimestamp = 0,
       prototype_lastAccess = None, cache_entry_object = False \<rparr>"

text \<open>A registered user whose key came from \<open>generateApiKey\<close>, and the state holding it.\<close>

definition demo_user :: user where
  "demo_user =
     \<lparr> user_id = ''u1'', username = ''alice'', passwordHash = ''hash-of-pw'',
       user_apiKey = generateApiKey ''a'', user_createdAt = 0, user_lastAccess = 0 \<rparr>"

definition demo_auth_state :: auth_state where
  "demo_auth_state =
     \<lparr> users = [''alice'' \<mapsto> demo_user],
       process_env = demo_env\<lparr> VALID_API_KEYS := Some [generateApiKey ''a'' \<mapsto> ''u1''] \<rparr> \<rparr>"

definition demo_credentials :: auth_body where
  "demo_credentials =
     \<lparr> body_username = Some ''alice'', body_password = Some ''pw'', body_masterKey = None \<rparr>"

text \<open>A stand-in for \<open>bcrypt.compare\<close>.\<close>

definition demo_verifyPassword :: "string \<Rightarrow> string \<Rightarrow> bool" where
  "demo_verifyPassword password hash = (hash = ''hash-of-'' @ password)"

section \<open>Hexadecimal round trip\<close>

lemma hex_value_hex_digit: "n < 16 \<Longrightarrow> hex_value (hex_digit n) = Some n"
  by (auto simp: hex_value_def hex_digit_def Let_def)

lemma char_of_hex_pair: "char_of (16 * ((of_char c :: nat) div 16) + (of_char c :: nat) mod 16) = c"
  by simp

lemma Buffer_from_hex_toString_hex: "Buffer_from_hex (toString_hex b) = b"
proof (induction b)
  case Nil
  show ?case by (simp add: toString_hex_def)
next
  case (Cons c b)
  have hi: "hex_value (hex_digit ((of_char c :: nat) div 16)) = Some ((of_char c :: nat) div 16)"
    by (rule hex_value_hex_digit) (simp add: less_mult_imp_div_less)
  have lo: "hex_value (hex_digit ((of_char c :: nat) mod 16)) = Some ((of_char c :: nat) mod 16)"
    by (rule hex_value_hex_digit) simp
  from Cons hi lo show ?case
    by (simp add: toString_hex_def)
qed

lemma even_length_toString_hex: "even (length (toString_hex b))"
  by (induction b) (simp_all add: toString_hex_def)

lemma update_hex_input_toString_hex: "update_hex_input (toString_hex b) = Some b"
  by (simp add: update_hex_input_def even_length_toString_hex Buffer_from_hex_toString_hex)

lemma demo_crypto_correct: "aead_correct demo_crypto"
  by (simp add: aead_correct_def demo_crypto_def)


section \<open>Properties of the Envelope Cipher\<close>

text \<open>
  C2. Round trip: for every plaintext \<open>P\<close>, every secret \<open>S\<close> and every draw of the 16
  bytes of iv and of the salt, decrypting the envelope that \<open>encryptKey\<close> made from \<open>P\<close>
  under \<open>S\<close> with the same \<open>S\<close> returns exactly \<open>P\<close>, given that the cipher of Node
  decrypts what it encrypted.
\<close>

theorem decryptKey_encryptKey:
  assumes "aead_correct c" and "length iv_bytes = 16"
  shows "decryptKey c (encryptKey c iv_bytes salt_bytes P S) S = Inr P"
  using assms
  by (simp add: decryptKey_def encryptKey_def envelope_object_def Let_def aead_correct_def
      Buffer_from_hex_toString_hex update_hex_input_toString_hex)

theorem decryptKey_encryptKey_witness:
  "aead_correct demo_crypto \<and> length ''0123456789abcdef'' = 16 \<and>
   decryptKey demo_crypto (encryptKey demo_crypto ''0123456789abcdef'' ''salt'' ''sk-live'' ''ks_ab'') ''ks_ab''
     = Inr ''sk-live''"
proof -
  have len: "length ''0123456789abcdef'' = 16" by simp
  from decryptKey_encryptKey [OF demo_crypto_correct len, of "''salt''" "''sk-live''" "''ks_ab''"]
    demo_crypto_correct len
  show ?thesis by simp
qed

subsection \<open>When \<open>decryptKey\<close> returns\<close>

text \<open>
  \<open>decryptKey\<close> returns a plaintext only for a text that parses to an object with
  four strings, whose \<open>encrypted\<close> has even length, and whose tag the decipher accepts
  for the decoded ciphertext under the key derived from the supplied secret and the
  decoded salt; what it returns is the decryption of that ciphertext. Every other input
  ends in the exception.
\<close>

lemma decryptKey_returns:
  assumes "decryptKey c d S = Inr P"
  shows "\<exists>encrypted_hex salt_hex iv_hex tag_hex ciphertext.
           d = JSON_object \<lparr> encrypted = Some encrypted_hex, salt = Some salt_hex,
                             iv = Some iv_hex, authTag = Some tag_hex \<rparr>
         \<and> update_hex_input encrypted_hex = Some ciphertext
         \<and> decipher_final c (pbkdf2Sync c S (Buffer_from_hex salt_hex) 100000 32)
              (Buffer_from_hex iv_hex) (Buffer_from_hex tag_hex) ciphertext
         \<and> P = decipher_update c (pbkdf2Sync c S (Buffer_from_hex salt_hex) 100000 32)
                  (Buffer_from_hex iv_hex) ciphertext"
proof -
  from assms obtain e where d: "d = JSON_object e"
    by (cases d) (simp_all add: decryptKey_def)
  obtain x sh ih th where e: "e = \<lparr> encrypted = x, salt = sh, iv = ih, authTag = th \<rparr>"
    by (cases e) simp
  from assms show ?thesis
    unfolding d e
    by (auto simp: decryptKey_def Let_def split: option.splits if_splits)
qed

lemma decryptKey_not_Inr: "(\<forall>P. decryptKey c d S \<noteq> Inr P) \<Longrightarrow> decryptKey c d S = Inl Thrown"
  by (cases "decryptKey c d S") (auto intro: decrypt_error.exhaust)









text \<open>
  A changed text of \<open>encrypted\<close> that decodes to the bytes of the ciphertext is the
  same ciphertext to \<open>decryptKey\<close>.
\<close>

lemma decryptKey_same_bytes:
  assumes "aead_correct c" and "length iv_bytes = 16"
    and "even (length encrypted_hex)"
    and "Buffer_from_hex encrypted_hex
           = cipher_update c (pbkdf2Sync c S salt_bytes 100000 32) iv_bytes P"
  shows "decryptKey c (JSON_object ((envelope_object c iv_bytes salt_bytes P S)\<lparr> encrypted := Some encrypted_hex \<rparr>)) S
           = Inr P"
  using assms
  by (simp add: decryptKey_def envelope_object_def Let_def aead_correct_def
      Buffer_from_hex_toString_hex update_hex_input_def)


section \<open>What the middlewares let through\<close>

lemma validateApiKey_Next:
  "validateApiKey e req = Next d \<Longrightarrow> js_or (x_api_key req) None = Some (payload_apiKey d)"
  by (auto simp: validateApiKey_def Let_def split: option.splits if_splits)

lemma validateAppKey_Own:
  assumes "validateAppKey now req s = (Next (Own a'), s')"
  shows "\<exists>key a. js_or (x_app_key req) (x_api_key req) = Some key
           \<and> map_of (apps (fst (loadApps now s))) key = Some a
           \<and> \<not> is_expired now a \<and> \<not> ip_denied req a \<and> \<not> domain_denied req a
           \<and> a' = a\<lparr> lastAccess := Some now, accessCount := accessCount a + 1 \<rparr>"
  using assms
  by (auto simp: validateAppKey_def apps_get_def Let_def
      split: option.splits if_splits prod.splits jsval.splits)

lemma validateAppKey_Responded:
  assumes "validateAppKey now req s = (Responded r, s')"
  shows "status r = 401 \<or> status r = 403 \<or> status r = 500"
  using assms
  by (auto simp: validateAppKey_def Let_def
      split: option.splits if_splits prod.splits jsval.splits)

lemma checkAppPermission_Responded:
  assumes "checkAppPermission svc appData = Responded r"
  shows "status r = 401 \<or> status r = 403 \<or> status r = 500"
  using assms
  by (auto simp: checkAppPermission_def split: jsval.splits if_splits)

lemma checkAppPermission_Next:
  assumes "checkAppPermission svc appData = Next a"
  shows "appData = Own a \<and> permission_of (permissions a) svc"
  using assms
  by (auto simp: checkAppPermission_def split: jsval.splits if_splits)

section \<open>The secret under which a key is released\<close>

text \<open>
  C1, as the code has it. Every 200 response of a per-service key route carries the
  configured service key encrypted by \<open>encryptKey\<close>. On the User route the secret is
  \<open>ENCRYPTION_SECRET\<close> when that variable is set and not empty, and the API key the
  caller presented otherwise. On the App route the secret is the \<open>apiKey\<close> field of the
  App record found under the presented key.
\<close>

theorem key_release_secret:
  "(api_keys c e admitted svc ivb sb now req = Response 200 b \<longrightarrow>
      (\<exists>key k. js_or (x_api_key req) None = Some key \<and> js_or (service_key e svc) None = Some k \<and>
         b = User_key_body (service_name svc)
               (encryptKey c ivb sb k
                  (case js_or (ENCRYPTION_SECRET e) None of Some shared \<Rightarrow> shared | None \<Rightarrow> key)) now))
   \<and> (fst (app_keys c e svc ivb sb now req s) = Response 200 b \<longrightarrow>
      (\<exists>key a k. js_or (x_app_key req) (x_api_key req) = Some key
         \<and> map_of (apps (fst (loadApps now s))) key = Some a
         \<and> js_or (service_key e svc) None = Some k
         \<and> b = App_key_body (service_name svc) (encryptKey c ivb sb k (apiKey a))
               (name a) (environment a) now))"
proof (intro conjI impI)
  assume r: "api_keys c e admitted svc ivb sb now req = Response 200 b"
  then obtain d where d: "validateApiKey e req = Next d"
    by (auto simp: api_keys_def validateApiKey_def Let_def split: option.splits if_splits)
  from r d obtain k where k: "js_or (service_key e svc) None = Some k"
    and b: "b = User_key_body (service_name svc) (encryptKey c ivb sb k (encryptionSecret e d)) now"
    by (auto simp: api_keys_def keysRouter_get_def split: if_splits option.splits)
  from validateApiKey_Next [OF d] k b
  show "\<exists>key k. js_or (x_api_key req) None = Some key \<and> js_or (service_key e svc) None = Some k \<and>
         b = User_key_body (service_name svc)
               (encryptKey c ivb sb k
                  (case js_or (ENCRYPTION_SECRET e) None of Some shared \<Rightarrow> shared | None \<Rightarrow> key)) now"
    by (auto simp: encryptionSecret_def)
next
  assume r: "fst (app_keys c e svc ivb sb now req s) = Response 200 b"
  then obtain a' s' where v: "validateAppKey now req s = (Next (Own a'), s')"
    and h: "appsRouter_get c e svc ivb sb now a' = Response 200 b"
    by (auto simp: app_keys_def split: prod.splits middleware.splits
        dest: validateAppKey_Responded checkAppPermission_Responded checkAppPermission_Next)
  from h obtain k where k: "js_or (service_key e svc) None = Some k"
    and b: "b = App_key_body (service_name svc) (encryptKey c ivb sb k (apiKey a')) (name a') (environment a') now"
    by (auto simp: appsRouter_get_def split: option.splits)
  from validateAppKey_Own [OF v] k b
  show "\<exists>key a k. js_or (x_app_key req) (x_api_key req) = Some key
         \<and> map_of (apps (fst (loadApps now s))) key = Some a
         \<and> js_or (service_key e svc) None = Some k
         \<and> b = App_key_body (service_name svc) (encryptKey c ivb sb k (apiKey a))
               (name a) (environment a) now"
    by auto
qed

lemmas route_defs =
  api_keys_def validateApiKey_def keysRouter_get_def encryptionSecret_def
  app_keys_def validateAppKey_def checkAppPermission_def appsRouter_get_def
  loadApps_def read_config_def saveApps_def assign_in_place_def
  is_expired_def ip_denied_def domain_denied_def js_or_def js_get_def apps_get_def
  Object_prototype_names_def delete_property_def

lemmas demo_defs =
  demo_env_def demo_env_shared_def user_request_def app_request_def demo_app_def
  stored_def fresh_server_def demo_user_def demo_auth_state_def demo_credentials_def
  demo_verifyPassword_def

theorem key_release_secret_witness:
  "api_keys demo_crypto demo_env True Openai ''0123456789abcdef'' ''salt'' 5 (user_request ''ks_ab'')
     = Response 200 (User_key_body ''openai''
         (encryptKey demo_crypto ''0123456789abcdef'' ''salt'' ''sk-live'' ''ks_ab'') 5)
   \<and> fst (app_keys demo_crypto demo_env Openai ''0123456789abcdef'' ''salt'' 5
            (app_request ''app_1'' None None)
            (fresh_server (stored [(''app_1'', demo_app ''app_1'')] True)))
     = Response 200 (App_key_body ''openai''
         (encryptKey demo_crypto ''0123456789abcdef'' ''salt'' ''sk-live'' ''app_1'') ''Bot'' production 5)"
  using
    key_release_secret [where c = demo_crypto and e = demo_env and admitted = True and svc = Openai
      and ivb = "''0123456789abcdef''" and sb = "''salt''" and now = 5
      and req = "user_request ''ks_ab''"
      and b = "User_key_body ''openai'' (encryptKey demo_crypto ''0123456789abcdef'' ''salt'' ''sk-live'' ''ks_ab'') 5"]
    key_release_secret [where c = demo_crypto and e = demo_env and svc = Openai
      and ivb = "''0123456789abcdef''" and sb = "''salt''" and now = 5
      and req = "app_request ''app_1'' None None"
      and s = "fresh_server (stored [(''app_1'', demo_app ''app_1'')] True)"
      and b = "App_key_body ''openai'' (encryptKey demo_crypto ''0123456789abcdef'' ''salt'' ''sk-live'' ''app_1'') ''Bot'' production 5"]
  by (simp add: route_defs demo_defs Let_def)

text \<open>
  C1 as the specification states it fails on the User route: with \<open>ENCRYPTION_SECRET\<close>
  set, the caller who presents \<open>ks_ab\<close> receives the key encrypted under the shared
  secret, and the envelope does not decrypt with the caller's own API key.
\<close>

theorem user_secret_counterexample:
  "api_keys demo_crypto demo_env_shared True Openai ''0123456789abcdef'' ''salt'' 5 (user_request ''ks_ab'')
     = Response 200 (User_key_body ''openai''
         (encryptKey demo_crypto ''0123456789abcdef'' ''salt'' ''sk-live'' ''shared'') 5)
   \<and> decryptKey demo_crypto (encryptKey demo_crypto ''0123456789abcdef'' ''salt'' ''sk-live'' ''shared'') ''ks_ab''
       = Inl Thrown
   \<and> decryptKey demo_crypto (encryptKey demo_crypto ''0123456789abcdef'' ''salt'' ''sk-live'' ''shared'') ''shared''
       = Inr ''sk-live''"
  by (simp add: route_defs demo_defs decryptKey_def encryptKey_def envelope_object_def
      demo_crypto_def Buffer_from_hex_toString_hex update_hex_input_toString_hex)

section \<open>Revocation\<close>

lemma revoke_loop_find:
  "revoke_loop entries nm config =
     (case find (\<lambda>(k, a). name a = nm) entries of
        None \<Rightarrow> (config, False)
      | Some (key, a) \<Rightarrow> (delete_property key config, True))"
  by (induction entries nm config rule: revoke_loop.induct) auto

lemma lookup_stored_content:
  "content f = Some config \<Longrightarrow> lookup_stored now f key = apps_get config False None key"
  by (simp add: lookup_stored_def loadApps_def read_config_def)

text \<open>
  C4, as the code has it. A successful \<open>revokeApp\<close> removes one record: the first one,
  in the enumeration order of the stored registry, whose name is the given one. After
  it a lookup of that record's key in the stored registry finds nothing, and the lookup
  of every other key, also of another app with the same name, is what it was.
\<close>

theorem revokeApp_removes_first:
  assumes "revokeApp nm f = (Revoked, f')"
  shows "\<exists>config key a.
           content f = Some config
         \<and> find (\<lambda>(k, a). name a = nm) (apps config) = Some (key, a)
         \<and> content f' = Some (delete_property key config)
         \<and> (key \<notin> set Object_prototype_names \<longrightarrow> lookup_stored now f' key = Undefined)
         \<and> (\<forall>k. k \<noteq> key \<longrightarrow> lookup_stored now f' k = lookup_stored now f k)"
proof -
  from assms obtain config where c: "content f = Some config"
    by (auto simp: revokeApp_def split: option.splits)
  from assms c obtain key a where fd: "find (\<lambda>(k, a). name a = nm) (apps config) = Some (key, a)"
    and f': "f' = f\<lparr> content := Some (delete_property key config) \<rparr>"
    by (auto simp: revokeApp_def revoke_loop_find split: option.splits if_splits prod.splits)
  let ?config' = "delete_property key config"
  from f' have c': "content f' = Some ?config'" by simp
  have gone: "key \<notin> set Object_prototype_names \<longrightarrow> lookup_stored now f' key = Undefined"
    by (simp add: lookup_stored_content [OF c'] apps_get_def delete_property_def delete_conv)
  have others: "\<forall>k. k \<noteq> key \<longrightarrow> lookup_stored now f' k = lookup_stored now f k"
    by (auto simp: lookup_stored_content [OF c'] lookup_stored_content [OF c] apps_get_def
        delete_property_def delete_conv split: option.splits)
  from c fd c' gone others show ?thesis by blast
qed

theorem revokeApp_removes_first_witness:
  "revokeApp ''Bot'' (stored [(''app_1'', demo_app ''app_1''), (''app_2'', demo_app ''app_2'')] True)
     = (Revoked, stored [(''app_2'', demo_app ''app_2'')] True)
   \<and> lookup_stored 9 (stored [(''app_2'', demo_app ''app_2'')] True) ''app_1'' = Undefined"
  using revokeApp_removes_first [of "''Bot''"
      "stored [(''app_1'', demo_app ''app_1''), (''app_2'', demo_app ''app_2'')] True"
      "stored [(''app_2'', demo_app ''app_2'')] True" 9]
  by (simp add: revokeApp_def demo_defs route_defs lookup_stored_def)

text \<open>
  C4 as the specification states it fails: of two apps named \<open>Bot\<close>, revoking \<open>Bot\<close>
  removes the first only, and the key of the second is still found.
\<close>

theorem revokeApp_same_name_counterexample:
  "revokeApp ''Bot'' (stored [(''app_1'', demo_app ''app_1''), (''app_2'', demo_app ''app_2'')] True)
     = (Revoked, stored [(''app_2'', demo_app ''app_2'')] True)
   \<and> name (demo_app ''app_2'') = ''Bot''
   \<and> lookup_stored 9 (stored [(''app_2'', demo_app ''app_2'')] True) ''app_2'' = Own (demo_app ''app_2'')"
  by (simp add: revokeApp_def demo_defs route_defs lookup_stored_def)

section \<open>Persistence of a registration\<close>

lemma loadApps_disk: "loadApps now s = (config, is_cache, s1) \<Longrightarrow> disk s1 = disk s"
  by (auto simp: loadApps_def read_config_def split: option.splits if_splits)





section \<open>The checks of the App gate\<close>

lemma validateAppKey_found:
  assumes "js_or (x_app_key req) (x_api_key req) = Some key"
    and "map_of (apps (fst (loadApps now s))) key = Some a"
  shows "validateAppKey now req s =
     (if is_expired now a
      then (Responded (Response 401 (Error_body ''App API key expired'')), snd (snd (loadApps now s)))
      else if ip_denied req a
      then (Responded (Response 403 (Error_body ''Access denied from this IP'')), snd (snd (loadApps now s)))
      else if domain_denied req a
      then (Responded (Response 403 (Error_body ''Access denied from this domain'')), snd (snd (loadApps now s)))
      else (Next (Own (a\<lparr> lastAccess := Some now, accessCount := accessCount a + 1 \<rparr>)),
            saveApps now
              ((fst (loadApps now s))\<lparr> apps := AList.update key
                  (a\<lparr> lastAccess := Some now, accessCount := accessCount a + 1 \<rparr>) (apps (fst (loadApps now s))) \<rparr>)
              (assign_in_place (fst (snd (loadApps now s)))
                 ((fst (loadApps now s))\<lparr> apps := AList.update key
                    (a\<lparr> lastAccess := Some now, accessCount := accessCount a + 1 \<rparr>) (apps (fst (loadApps now s))) \<rparr>)
                 (snd (snd (loadApps now s))))))"
  using assms
  by (cases "loadApps now s") (simp add: validateAppKey_def apps_get_def Let_def)

text \<open>
  Keys that are not API keys, on an empty registry. The key \<open>constructor\<close> reaches
  \<open>next()\<close> and the permission check then answers 500. After a request with the key
  \<open>__proto__\<close>, the key \<open>lastAccess\<close> reaches \<open>next()\<close> as well; once the cache has
  expired and the registry is read from the file again, the same key is answered 500.
\<close>

lemma builtin_key_passes:
  "fst (validateAppKey 5 (app_request ''constructor'' None None) (fresh_server (stored [] True)))
     = Next (Inherited ''constructor'')
   \<and> fst (app_keys demo_crypto demo_env Openai ''0123456789abcdef'' ''salt'' 5
            (app_request ''constructor'' None None) (fresh_server (stored [] True)))
     = Response 500 (Error_body ''Internal server error'')
   \<and> fst (validateAppKey 5 (app_request ''lastAccess'' None None) (fresh_server (stored [] True)))
     = Responded (Response 401 (Error_body ''Invalid app API key''))"
  by (simp add: route_defs demo_defs Let_def)

lemma prototype_key_then_lastAccess:
  "fst (validateAppKey 6 (app_request ''lastAccess'' None None)
          (snd (validateAppKey 5 (app_request ''__proto__'' None None)
                  (fresh_server (stored [] True)))))
     = Next (Date_object 5)
   \<and> fst (validateAppKey 70000 (app_request ''lastAccess'' None None)
          (snd (validateAppKey 6 (app_request ''lastAccess'' None None)
                  (snd (validateAppKey 5 (app_request ''__proto__'' None None)
                          (fresh_server (stored [] True)))))))
     = Responded (Response 500 (Error_body ''Internal server error''))"
  by (simp add: route_defs demo_defs Let_def CACHE_TTL_def)

text \<open>
  The rejection of a request without origin in production is the rule of
  \<open>validateRequestOrigin\<close>, which is given its own list of origins and matches by
  prefix.
\<close>

lemma validateRequestOrigin_no_origin:
  assumes "js_or (origin req) (referer req) = None"
  shows "validateRequestOrigin allowedOrigins e req =
           (if NODE_ENV e = Some ''production''
            then Responded (Response 403 (Error_body ''Origin validation failed''))
            else Next ())"
  using assms by (simp add: validateRequestOrigin_def)

text \<open>
  C6, as the code has it. For a request whose key finds an unexpired App with a
  non-empty \<open>allowedDomains\<close> list and which passes the IP check: when the request has
  an origin (the \<open>Origin\<close> header, or else \<open>Referer\<close>), it passes iff the origin contains
  one of the listed entries, and is answered 403 otherwise; when it has none, it
  passes, whatever the deployment mode, which \<open>validateAppKey\<close> never reads.
\<close>

theorem app_domain_check:
  assumes "js_or (x_app_key req) (x_api_key req) = Some key"
    and "map_of (apps (fst (loadApps now s))) key = Some a"
    and "allowedDomains a = Some domains" and "domains \<noteq> []"
    and "\<not> is_expired now a" and "\<not> ip_denied req a"
  shows "(\<forall>orig. js_or (origin req) (referer req) = Some orig \<longrightarrow>
            (if \<exists>domain \<in> set domains. sublist domain orig
             then \<exists>a' s'. validateAppKey now req s = (Next (Own a'), s')
             else \<exists>s'. validateAppKey now req s =
                    (Responded (Response 403 (Error_body ''Access denied from this domain'')), s')))
       \<and> (js_or (origin req) (referer req) = None \<longrightarrow>
            (\<exists>a' s'. validateAppKey now req s = (Next (Own a'), s')))"
  using assms(3-6)
  by (auto simp: validateAppKey_found [OF assms(1,2)] domain_denied_def list_ex_iff)

theorem app_domain_check_witness:
  "fst (validateAppKey 5 (app_request ''app_1'' None (Some ''https://myapp.com''))
          (fresh_server (stored [(''app_1'', (demo_app ''app_1'')\<lparr> allowedDomains := Some [''myapp.com''] \<rparr>)] True)))
     = Next (Own ((demo_app ''app_1'')\<lparr> allowedDomains := Some [''myapp.com''],
                    lastAccess := Some 5, accessCount := 1 \<rparr>))
   \<and> fst (validateAppKey 5 (app_request ''app_1'' None (Some ''https://evil.example''))
          (fresh_server (stored [(''app_1'', (demo_app ''app_1'')\<lparr> allowedDomains := Some [''myapp.com''] \<rparr>)] True)))
     = Responded (Response 403 (Error_body ''Access denied from this domain''))
   \<and> fst (validateAppKey 5 (app_request ''app_1'' None None)
          (fresh_server (stored [(''app_1'', (demo_app ''app_1'')\<lparr> allowedDomains := Some [''myapp.com''] \<rparr>)] True)))
     = Next (Own ((demo_app ''app_1'')\<lparr> allowedDomains := Some [''myapp.com''],
                    lastAccess := Some 5, accessCount := 1 \<rparr>))"
  using
    app_domain_check [where req = "app_request ''app_1'' None (Some ''https://myapp.com'')"
      and key = "''app_1''" and now = 5
      and s = "fresh_server (stored [(''app_1'', (demo_app ''app_1'')\<lparr> allowedDomains := Some [''myapp.com''] \<rparr>)] True)"
      and a = "(demo_app ''app_1'')\<lparr> allowedDomains := Some [''myapp.com''] \<rparr>"
      and domains = "[''myapp.com'']"]
    app_domain_check [where req = "app_request ''app_1'' None (Some ''https://evil.example'')"
      and key = "''app_1''" and now = 5
      and s = "fresh_server (stored [(''app_1'', (demo_app ''app_1'')\<lparr> allowedDomains := Some [''myapp.com''] \<rparr>)] True)"
      and a = "(demo_app ''app_1'')\<lparr> allowedDomains := Some [''myapp.com''] \<rparr>"
      and domains = "[''myapp.com'']"]
    app_domain_check [where req = "app_request ''app_1'' None None"
      and key = "''app_1''" and now = 5
      and s = "fresh_server (stored [(''app_1'', (demo_app ''app_1'')\<lparr> allowedDomains := Some [''myapp.com''] \<rparr>)] True)"
      and a = "(demo_app ''app_1'')\<lparr> allowedDomains := Some [''myapp.com''] \<rparr>"
      and domains = "[''myapp.com'']"]
  by (simp add: route_defs demo_defs Let_def sublist_code)

text \<open>
  C6 as the specification states it fails: in a production deployment, a production
  App with a domain allow-list is served a request that carries neither \<open>Origin\<close> nor
  \<open>Referer\<close>.
\<close>

theorem no_origin_production_counterexample:
  "NODE_ENV demo_env = Some ''production''
   \<and> fst (app_keys demo_crypto demo_env Openai ''0123456789abcdef'' ''salt'' 5
            (app_request ''app_1'' None None)
            (fresh_server (stored [(''app_1'', (demo_app ''app_1'')\<lparr> allowedDomains := Some [''myapp.com''] \<rparr>)] True)))
     = Response 200 (App_key_body ''openai''
         (encryptKey demo_crypto ''0123456789abcdef'' ''salt'' ''sk-live'' ''app_1'') ''Bot'' production 5)"
  by (simp add: route_defs demo_defs Let_def)

text \<open>
  C7, as the code has it. For a request whose key finds an App: when the App is
  unexpired and the IP and domain checks pass, \<open>accessCount\<close> goes up by one,
  \<open>lastAccess\<close> is set, the write of the record is attempted before \<open>next()\<close> (and the
  stored registry holds the new record when that write succeeds), and the
  service-permission check that follows leaves this state as it is. When the App is
  expired or the IP or domain check rejects the request, the request is answered
  before the statistics are touched and nothing is written.
\<close>

theorem access_stats_update:
  assumes "js_or (x_app_key req) (x_api_key req) = Some key"
    and "map_of (apps (fst (loadApps now s))) key = Some a"
  shows "(\<not> is_expired now a \<and> \<not> ip_denied req a \<and> \<not> domain_denied req a \<longrightarrow>
            (\<exists>s'. validateAppKey now req s =
                    (Next (Own (a\<lparr> lastAccess := Some now, accessCount := accessCount a + 1 \<rparr>)), s')
                \<and> snd (app_keys c e svc ivb sb now req s) = s'
                \<and> (writable (disk s) \<longrightarrow>
                     lookup_stored later (disk s') key
                       = Own (a\<lparr> lastAccess := Some now, accessCount := accessCount a + 1 \<rparr>))))
       \<and> (is_expired now a \<or> ip_denied req a \<or> domain_denied req a \<longrightarrow>
            (\<exists>r. validateAppKey now req s = (Responded r, snd (snd (loadApps now s)))
                \<and> snd (app_keys c e svc ivb sb now req s) = snd (snd (loadApps now s))
                \<and> disk (snd (snd (loadApps now s))) = disk s))"
proof -
  obtain config is_cache s1 where l: "loadApps now s = (config, is_cache, s1)"
    by (cases "loadApps now s") auto
  note d = loadApps_disk [OF l]
  show ?thesis
    using l d
    by (auto simp: validateAppKey_found [OF assms] app_keys_def saveApps_def assign_in_place_def
        lookup_stored_content update_conv' apps_get_def split: middleware.splits)
qed

theorem access_stats_update_witness:
  "lookup_stored 6
     (disk (snd (validateAppKey 5 (app_request ''app_1'' None None)
                   (fresh_server (stored [(''app_1'', demo_app ''app_1'')] True)))))
     ''app_1''
     = Own ((demo_app ''app_1'')\<lparr> lastAccess := Some 5, accessCount := 1 \<rparr>)
   \<and> snd (app_keys demo_crypto demo_env Anthropic ''0123456789abcdef'' ''salt'' 5
            (app_request ''app_1'' None None)
            (fresh_server (stored [(''app_1'', demo_app ''app_1'')] True)))
     = snd (validateAppKey 5 (app_request ''app_1'' None None)
              (fresh_server (stored [(''app_1'', demo_app ''app_1'')] True)))
   \<and> lookup_stored 6
     (disk (snd (validateAppKey 5 (app_request ''app_1'' (Some ''10.0.0.9'') None)
                   (fresh_server (stored [(''app_1'', (demo_app ''app_1'')\<lparr> allowedIPs := Some [''10.0.0.5''] \<rparr>)] True)))))
     ''app_1''
     = Own ((demo_app ''app_1'')\<lparr> allowedIPs := Some [''10.0.0.5''] \<rparr>)"
  using
    access_stats_update [where req = "app_request ''app_1'' None None" and key = "''app_1''"
      and now = 5 and later = 6
      and s = "fresh_server (stored [(''app_1'', demo_app ''app_1'')] True)"
      and a = "demo_app ''app_1''" and c = demo_crypto and e = demo_env and svc = Anthropic
      and ivb = "''0123456789abcdef''" and sb = "''salt''"]
    access_stats_update [where req = "app_request ''app_1'' (Some ''10.0.0.9'') None" and key = "''app_1''"
      and now = 5 and later = 6
      and s = "fresh_server (stored [(''app_1'', (demo_app ''app_1'')\<lparr> allowedIPs := Some [''10.0.0.5''] \<rparr>)] True)"
      and a = "(demo_app ''app_1'')\<lparr> allowedIPs := Some [''10.0.0.5''] \<rparr>"
      and c = demo_crypto and e = demo_env and svc = Anthropic
      and ivb = "''0123456789abcdef''" and sb = "''salt''"]
  by (simp add: route_defs demo_defs Let_def lookup_stored_def)

text \<open>
  C7 as the specification states it fails: a request with the valid, unexpired key of
  an App, sent from an address outside the App's IP allow-list, is answered 403 and
  leaves \<open>accessCount\<close> and \<open>lastAccess\<close> as they were, in the cache and in the file.
\<close>

theorem ip_rejected_no_stats_counterexample:
  "validateAppKey 5 (app_request ''app_1'' (Some ''10.0.0.9'') None)
     (fresh_server (stored [(''app_1'', (demo_app ''app_1'')\<lparr> allowedIPs := Some [''10.0.0.5''] \<rparr>)] True))
     = (Responded (Response 403 (Error_body ''Access denied from this IP'')),
        \<lparr> disk = stored [(''app_1'', (demo_app ''app_1'')\<lparr> allowedIPs := Some [''10.0.0.5''] \<rparr>)] True,
          appsCache = Some \<lparr> apps = [(''app_1'', (demo_app ''app_1'')\<lparr> allowedIPs := Some [''10.0.0.5''] \<rparr>)],
                             lastAccess_entry = None \<rparr>,
          cacheTimestamp = 5, prototype_lastAccess = None, cache_entry_object = False \<rparr>)
   \<and> accessCount ((demo_app ''app_1'')\<lparr> allowedIPs := Some [''10.0.0.5''] \<rparr>) = 0
   \<and> lastAccess ((demo_app ''app_1'')\<lparr> allowedIPs := Some [''10.0.0.5''] \<rparr>) = None
   \<and> \<not> is_expired 5 ((demo_app ''app_1'')\<lparr> allowedIPs := Some [''10.0.0.5''] \<rparr>)"
  by (simp add: route_defs demo_defs Let_def)

text \<open>
  C9. For an App whose \<open>permissions.anthropic\<close> is false, every request with its valid,
  unexpired key for the Anthropic key on the per-service route is answered 403; when
  the IP and domain restrictions are satisfied, the answer is the permission error of
  \<open>checkAppPermission\<close>.
\<close>

theorem anthropic_permission_gate:
  assumes "js_or (x_app_key req) (x_api_key req) = Some key"
    and "map_of (apps (fst (loadApps now s))) key = Some a"
    and "\<not> anthropic (permissions a)"
    and "\<not> is_expired now a"
  shows "status (fst (app_keys c e Anthropic ivb sb now req s)) = 403
       \<and> (\<not> ip_denied req a \<and> \<not> domain_denied req a \<longrightarrow>
            fst (app_keys c e Anthropic ivb sb now req s)
              = Response 403 (Error_body ''App does not have permission to access anthropic keys''))"
  using assms(3,4)
  by (auto simp: validateAppKey_found [OF assms(1,2)] app_keys_def checkAppPermission_def)

theorem anthropic_permission_gate_witness:
  "fst (app_keys demo_crypto demo_env Anthropic ''0123456789abcdef'' ''salt'' 5
          (app_request ''app_1'' None None)
          (fresh_server (stored [(''app_1'', demo_app ''app_1'')] True)))
     = Response 403 (Error_body ''App does not have permission to access anthropic keys'')"
  using
    anthropic_permission_gate [where req = "app_request ''app_1'' None None" and key = "''app_1''"
      and now = 5 and s = "fresh_server (stored [(''app_1'', demo_app ''app_1'')] True)"
      and a = "demo_app ''app_1''" and c = demo_crypto and e = demo_env
      and ivb = "''0123456789abcdef''" and sb = "''salt''"]
  by (simp add: route_defs demo_defs Let_def)

section \<open>Key rotation and the User gate\<close>






text \<open>
  For a presented key that is not the name of a property of \<open>Object.prototype\<close>, the
  gate lets the request through exactly when the parsed object holds a non-empty user
  id under that key.
\<close>

lemma validateApiKey_own_keys:
  assumes "x_api_key req = Some key" and "key \<noteq> []" and "key \<notin> set Object_prototype_names"
  shows "validateApiKey e req =
           (case (case VALID_API_KEYS e of None \<Rightarrow> Map.empty | Some obj \<Rightarrow> obj) key of
              None \<Rightarrow> Responded (Response 401 (Error_body ''Invalid API key''))
            | Some uid \<Rightarrow>
                if uid = [] then Responded (Response 401 (Error_body ''Invalid API key''))
                else Next \<lparr> payload_apiKey = key, payload_userId = Own uid \<rparr>)"
  using assms
  by (simp add: validateApiKey_def js_or_def js_get_def Let_def split: option.splits)

text \<open>
  C10. The claim: a presented key passes the User gate iff the object parsed from
  \<open>VALID_API_KEYS\<close> holds a truthy value under it, and with the variable unset every
  presented key is answered 401 ``Invalid API key''. The code does not do this for the
  names of the properties of \<open>Object.prototype\<close>: with the variable unset the parsed
  object is \<open>{}\<close>, the presented key \<open>constructor\<close> finds
  \<open>Object.prototype.constructor\<close>, which is truthy, \<open>validateApiKey\<close> calls \<open>next()\<close>,
  and the key route releases the OpenAI key encrypted under the string \<open>constructor\<close>.
\<close>

theorem prototype_key_authenticates:
  "validateApiKey (demo_env\<lparr> VALID_API_KEYS := None \<rparr>) (user_request ''constructor'')
     = Next \<lparr> payload_apiKey = ''constructor'', payload_userId = Inherited ''constructor'' \<rparr>
   \<and> api_keys demo_crypto (demo_env\<lparr> VALID_API_KEYS := None \<rparr>) True Openai
        ''0123456789abcdef'' ''salt'' 5 (user_request ''constructor'')
     = Response 200 (User_key_body ''openai''
         (encryptKey demo_crypto ''0123456789abcdef'' ''salt'' ''sk-live'' ''constructor'') 5)"
  by (simp add: route_defs demo_defs Let_def)

end
